theory Spec2Isabelle
  imports Complex_Main "HOL-Library.AList" "HOL-Library.Multiset"
begin

section \<open>Common conventions\<close>

text \<open>
  The two notebooks compute with Python and NumPy floating-point numbers. They are
  modelled by the real numbers: rounding, overflow to \<open>inf\<close> and \<open>nan\<close> are not
  represented. Every Python exception that the modelled code can raise is a value of
  \<open>error\<close>; the last four constructors are the error names of the specification's
  taxonomy, which no function of the source raises.
\<close>

datatype error =
    ZeroDivisionError
  | KeyError
  | IndexError
  | InvalidLever
  | IncompleteTrajectory
  | MissingEvent
  | IntegrationFailure

section \<open>The Freshman Plague\<close>

subsection \<open>Objects and the store\<close>

text \<open>
  \<open>State(s, i, r)\<close> holds the susceptible, infected and recovered fractions, and a
  \<open>System\<close> object holds \<open>init\<close>, \<open>t_end\<close>, \<open>beta\<close> and \<open>gamma\<close>. The \<open>State\<close> in
  \<open>system.init\<close> is owned by its \<open>System\<close>. Each notebook has its own \<open>State\<close> and
  \<open>System\<close>; those of this notebook are \<open>SIR_State\<close> and \<open>SIR_System\<close>.
\<close>

record SIR_State =
  s :: real
  i :: real
  r :: real

record SIR_System =
  init :: SIR_State
  t_end :: int
  beta :: real
  gamma :: real

text \<open>
  \<open>System\<close> objects are mutable and passed by reference, so they live in a store:
  \<open>cell h a\<close> is the object at address \<open>a\<close>, and \<open>fresh h\<close> is the next unused address.
  Every address below \<open>fresh h\<close> has been allocated.
\<close>

record heap =
  cell :: "nat \<Rightarrow> SIR_System"
  fresh :: nat

definition update_object :: "nat \<Rightarrow> (SIR_System \<Rightarrow> SIR_System) \<Rightarrow> heap \<Rightarrow> heap" where
  "update_object a f h = h\<lparr>cell := (cell h)(a := f (cell h a))\<rparr>"

text \<open>
  \<open>from chap11 import make_system, update_func, run_simulation\<close>: chap11.py is not
  among the sources. What the notebook imports from it is a parameter of the model:
  the initial \<open>State\<close> and the end time that \<open>make_system\<close> stores, the simulation
  function, and the update function handed to it. A \<open>TimeFrame\<close> of results is a map
  from time labels to states. The simulation reads the \<open>System\<close> it is given and does
  not change it.
\<close>

record 'u chap11 =
  init_state :: SIR_State
  end_time :: int
  run_simulation :: "SIR_System \<Rightarrow> 'u \<Rightarrow> (int \<rightharpoonup> SIR_State)"
  update_func :: 'u

text \<open>
  Modelled from the spec: \<open>make_system\<close> of chap11.py is missing. Each evaluation
  composes its own StateModel and Parameters copy, so \<open>make_system(beta, gamma)\<close>
  allocates a new \<open>System\<close> object with the given rates and returns its address.
\<close>

definition chap11_make_system :: "'u chap11 \<Rightarrow> real \<Rightarrow> real \<Rightarrow> heap \<Rightarrow> nat \<times> heap" where
  "chap11_make_system env b c h =
     (fresh h,
      h\<lparr>cell := (cell h)(fresh h :=
             \<lparr>init = init_state env, t_end = end_time env, beta = b, gamma = c\<rparr>),
        fresh := Suc (fresh h)\<rparr>)"

subsection \<open>Immunization and the outcome\<close>

definition add_immunization :: "nat \<Rightarrow> real \<Rightarrow> heap \<Rightarrow> heap" where
  "add_immunization system fraction h =
     (let h1 = update_object system
                 (\<lambda>obj. obj\<lparr>init := (init obj)\<lparr>s := s (init obj) - fraction\<rparr>\<rparr>) h;
          h2 = update_object system
                 (\<lambda>obj. obj\<lparr>init := (init obj)\<lparr>r := r (init obj) + fraction\<rparr>\<rparr>) h1
      in h2)"

text \<open>
  The globals \<open>beta\<close> and \<open>gamma\<close> of the notebook are \<open>beta_rate\<close> and \<open>gamma_rate\<close>
  here, since \<open>beta\<close> and \<open>gamma\<close> name the fields of a \<open>System\<close>.
\<close>

definition tc :: real where "tc = 3"
definition tr :: real where "tr = 4"

definition beta_rate :: real where "beta_rate = 1 / tc"
definition gamma_rate :: real where "gamma_rate = 1 / tr"

text \<open>
  \<open>results.s[0]\<close> and \<open>results.s[system.t_end]\<close> look a time label up; a missing label
  raises \<open>KeyError\<close>.
\<close>

definition calc_total_infected :: "(int \<rightharpoonup> SIR_State) \<Rightarrow> SIR_System \<Rightarrow> error + real" where
  "calc_total_infected results system =
     (case results 0 of
        None \<Rightarrow> Inl KeyError
      | Some row_0 \<Rightarrow>
          (case results (t_end system) of
             None \<Rightarrow> Inl KeyError
           | Some row_end \<Rightarrow>
               (let s_0 = s row_0; s_end = s row_end in Inr (s_0 - s_end))))"

subsection \<open>The generalized logistic function and hand washing\<close>

text \<open>
  \<open>1/nu\<close> divides Python numbers and raises \<open>ZeroDivisionError\<close> for \<open>nu = 0\<close>. The power
  \<open>denom ** (1/nu)\<close> is the real power \<open>powr\<close>, which agrees with the source for a
  positive \<open>denom\<close>; the source's \<open>nan\<close> and \<open>inf\<close> for other values are outside the model.
\<close>

definition logistic ::
  "real \<Rightarrow> real \<Rightarrow> real \<Rightarrow> real \<Rightarrow> real \<Rightarrow> real \<Rightarrow> real \<Rightarrow> real \<Rightarrow> error + real" where
  "logistic x A B C M K Q nu =
     (let exponent = - B * (x - M);
          denom = C + Q * exp exponent
      in if nu = 0 then Inl ZeroDivisionError
         else Inr (A + (K - A) / denom powr (1 / nu)))"

text \<open>The defaults of \<open>logistic\<close> are \<open>A=0, B=1, C=1, M=0, K=1, Q=1, nu=1\<close>.\<close>

definition compute_factor :: "real \<Rightarrow> error + real" where
  "compute_factor spending = logistic spending 0 (1/100) 1 500 (1/5) 1 1"

definition add_hand_washing :: "nat \<Rightarrow> real \<Rightarrow> heap \<Rightarrow> error + heap" where
  "add_hand_washing system spending h =
     (case compute_factor spending of
        Inl e \<Rightarrow> Inl e
      | Inr factor \<Rightarrow>
          Inr (update_object system (\<lambda>obj. obj\<lparr>beta := beta obj * (1 - factor)\<rparr>) h))"

subsection \<open>Sweeps\<close>

text \<open>
  Modelled from the spec: \<open>SweepSeries\<close> of modsim.py is missing. A SweepResult is a
  mapping from lever value to outcome with unique keys in insertion order, so
  \<open>sweep[v] = y\<close> is \<open>AList.update v y sweep\<close>: it replaces the value of an existing key in
  place and appends a new key at the end.
\<close>

type_synonym SweepSeries = "(real \<times> real) list"

fun sweep_hand_washing_loop ::
  "'u chap11 \<Rightarrow> real list \<Rightarrow> SweepSeries \<Rightarrow> heap \<Rightarrow> error + SweepSeries \<times> heap" where
  "sweep_hand_washing_loop env [] sweep h = Inr (sweep, h)"
| "sweep_hand_washing_loop env (spending # rest) sweep h =
     (let (system, h1) = chap11_make_system env beta_rate gamma_rate h in
      case add_hand_washing system spending h1 of
        Inl e \<Rightarrow> Inl e
      | Inr h2 \<Rightarrow>
          (let results = run_simulation env (cell h2 system) (update_func env) in
           case calc_total_infected results (cell h2 system) of
             Inl e \<Rightarrow> Inl e
           | Inr outcome \<Rightarrow>
               sweep_hand_washing_loop env rest (AList.update spending outcome sweep) h2))"

definition sweep_hand_washing ::
  "'u chap11 \<Rightarrow> real list \<Rightarrow> heap \<Rightarrow> error + SweepSeries \<times> heap" where
  "sweep_hand_washing env spending_array h = sweep_hand_washing_loop env spending_array [] h"

definition num_students :: real where "num_students = 90"
definition budget :: real where "budget = 1200"
definition price_per_dose :: real where "price_per_dose = 100"

text \<open>\<open>int\<close> applied to a float truncates towards zero.\<close>

definition py_int :: "real \<Rightarrow> int" where
  "py_int q = (if 0 \<le> q then \<lfloor>q\<rfloor> else \<lceil>q\<rceil>)"

definition max_doses :: int where
  "max_doses = py_int (budget / price_per_dose)"

text \<open>
  Modelled from the spec: \<open>linrange\<close> of modsim.py is missing. The notebook says of the
  call with one argument that it "returns a NumPy array with the integers from 0 to
  \<open>max_doses\<close>, including both".
\<close>

definition linrange :: "int \<Rightarrow> real list" where
  "linrange stop = map real_of_int [0..stop]"

definition dose_array :: "real list" where
  "dose_array = linrange max_doses"

fun sweep_doses_loop ::
  "'u chap11 \<Rightarrow> real list \<Rightarrow> SweepSeries \<Rightarrow> heap \<Rightarrow> error + SweepSeries \<times> heap" where
  "sweep_doses_loop env [] sweep h = Inr (sweep, h)"
| "sweep_doses_loop env (doses # rest) sweep h =
     (let fraction = doses / num_students;
          spending = budget - doses * price_per_dose;
          (system, h1) = chap11_make_system env beta_rate gamma_rate h;
          h2 = add_immunization system fraction h1 in
      case add_hand_washing system spending h2 of
        Inl e \<Rightarrow> Inl e
      | Inr h3 \<Rightarrow>
          (let results = run_simulation env (cell h3 system) (update_func env) in
           case calc_total_infected results (cell h3 system) of
             Inl e \<Rightarrow> Inl e
           | Inr outcome \<Rightarrow>
               sweep_doses_loop env rest (AList.update doses outcome sweep) h3))"

definition sweep_doses ::
  "'u chap11 \<Rightarrow> real list \<Rightarrow> heap \<Rightarrow> error + SweepSeries \<times> heap" where
  "sweep_doses env doses_array h = sweep_doses_loop env doses_array [] h"

subsection \<open>One evaluation: compose, integrate, extract\<close>

text \<open>
  The specification describes one sweep iteration as composing a StateModel from the
  lever values, integrating it, and extracting the scalar outcome. These definitions
  are that pipeline for one lever value alone, started on a store \<open>h\<close>:
  \<open>compose_spending\<close> for the hand-washing lever, \<open>compose_levers\<close> for the pair of
  immunized fraction and campaign spending.
\<close>

definition compose_spending :: "'u chap11 \<Rightarrow> real \<Rightarrow> heap \<Rightarrow> error + nat \<times> heap" where
  "compose_spending env spending h =
     (let (system, h1) = chap11_make_system env beta_rate gamma_rate h in
      case add_hand_washing system spending h1 of
        Inl e \<Rightarrow> Inl e
      | Inr h2 \<Rightarrow> Inr (system, h2))"

definition compose_levers :: "'u chap11 \<Rightarrow> real \<Rightarrow> real \<Rightarrow> heap \<Rightarrow> error + nat \<times> heap" where
  "compose_levers env fraction spending h =
     (let (system, h1) = chap11_make_system env beta_rate gamma_rate h;
          h2 = add_immunization system fraction h1 in
      case add_hand_washing system spending h2 of
        Inl e \<Rightarrow> Inl e
      | Inr h3 \<Rightarrow> Inr (system, h3))"

definition integrate_extract :: "'u chap11 \<Rightarrow> error + nat \<times> heap \<Rightarrow> error + real" where
  "integrate_extract env composed =
     (case composed of
        Inl e \<Rightarrow> Inl e
      | Inr (system, h) \<Rightarrow>
          calc_total_infected (run_simulation env (cell h system) (update_func env))
            (cell h system))"

definition evaluate_spending :: "'u chap11 \<Rightarrow> real \<Rightarrow> heap \<Rightarrow> error + real" where
  "evaluate_spending env spending h = integrate_extract env (compose_spending env spending h)"

definition evaluate_levers :: "'u chap11 \<Rightarrow> real \<Rightarrow> real \<Rightarrow> heap \<Rightarrow> error + real" where
  "evaluate_levers env fraction spending h =
     integrate_extract env (compose_levers env fraction spending h)"

text \<open>The candidates of a sequence in the order of their first occurrence.\<close>

fun first_occurrences :: "'a list \<Rightarrow> 'a list" where
  "first_occurrences [] = []"
| "first_occurrences (v # vs) = v # filter (\<lambda>w. w \<noteq> v) (first_occurrences vs)"

text \<open>
  \<open>store_new obj h\<close> is the store \<open>h\<close> with \<open>obj\<close> allocated at the next unused address;
  \<open>washed\<close> and \<open>dosed\<close> are the \<open>System\<close> values that one iteration of each sweep hands
  to the simulation.
\<close>

definition store_new :: "SIR_System \<Rightarrow> heap \<Rightarrow> heap" where
  "store_new obj h = h\<lparr>cell := (cell h)(fresh h := obj), fresh := Suc (fresh h)\<rparr>"

definition washed :: "'u chap11 \<Rightarrow> real \<Rightarrow> SIR_System" where
  "washed env spending =
     \<lparr>init = init_state env, t_end = end_time env,
      beta = beta_rate * (1 - (1/5) / (1 + exp (- (1/100) * (spending - 500)))),
      gamma = gamma_rate\<rparr>"

definition dosed :: "'u chap11 \<Rightarrow> real \<Rightarrow> real \<Rightarrow> SIR_System" where
  "dosed env fraction spending =
     \<lparr>init = (init_state env)\<lparr>s := s (init_state env) - fraction,
                               r := r (init_state env) + fraction\<rparr>,
      t_end = end_time env,
      beta = beta_rate * (1 - (1/5) / (1 + exp (- (1/100) * (spending - 500)))),
      gamma = gamma_rate\<rparr>"

subsection \<open>A sample configuration\<close>

text \<open>
  A concrete instance of the imported parts, used to evaluate the model: 89 susceptible
  and one infected student out of 90, 98 days, and a simulation whose result has only
  the two rows that the outcome reads, with nobody susceptible at the end.
\<close>

definition sample_chap11 :: "unit chap11" where
  "sample_chap11 =
     \<lparr>init_state = \<lparr>s = 89/90, i = 1/90, r = 0\<rparr>,
      end_time = 98,
      run_simulation = (\<lambda>system u. [0 \<mapsto> init system,
                                      t_end system \<mapsto> \<lparr>s = 0, i = 0, r = 1\<rparr>]),
      update_func = ()\<rparr>"

definition empty_heap :: heap where
  "empty_heap =
     \<lparr>cell = (\<lambda>a. \<lparr>init = \<lparr>s = 0, i = 0, r = 0\<rparr>, t_end = 0, beta = 0, gamma = 0\<rparr>),
      fresh = 0\<rparr>"

definition sample_heap :: heap where
  "sample_heap = snd (chap11_make_system sample_chap11 beta_rate gamma_rate empty_heap)"

section \<open>Spider-Man\<close>

subsection \<open>Vectors\<close>

text \<open>
  Modelled from the spec: \<open>Vector\<close>, \<open>vector_mag\<close>, \<open>vector_hat\<close> and \<open>pol2cart\<close> of
  modsim.py are missing. A \<open>Vector\<close> is a pair of coordinates (\<open>fst\<close> is \<open>.x\<close>, \<open>snd\<close> is
  \<open>.y\<close>) with componentwise arithmetic; \<open>vector_mag\<close> is the Euclidean magnitude;
  \<open>vector_hat\<close> is the unit vector in the direction of its argument, and the zero vector
  for the zero vector; \<open>pol2cart\<close> converts polar to Cartesian coordinates.
\<close>

type_synonym Vector = "real \<times> real"

definition Vector :: "real \<Rightarrow> real \<Rightarrow> Vector" where
  "Vector a b = (a, b)"

definition vector_add :: "Vector \<Rightarrow> Vector \<Rightarrow> Vector" where
  "vector_add v w = (fst v + fst w, snd v + snd w)"

definition vector_sub :: "Vector \<Rightarrow> Vector \<Rightarrow> Vector" where
  "vector_sub v w = (fst v - fst w, snd v - snd w)"

definition vector_neg :: "Vector \<Rightarrow> Vector" where
  "vector_neg v = (- fst v, - snd v)"

definition vector_mul :: "Vector \<Rightarrow> real \<Rightarrow> Vector" where
  "vector_mul v c = (fst v * c, snd v * c)"

definition vector_div :: "Vector \<Rightarrow> real \<Rightarrow> Vector" where
  "vector_div v c = (fst v / c, snd v / c)"

definition vector_mag :: "Vector \<Rightarrow> real" where
  "vector_mag v = sqrt (fst v * fst v + snd v * snd v)"

definition vector_hat :: "Vector \<Rightarrow> Vector" where
  "vector_hat v = (let mag = vector_mag v in if mag = 0 then v else vector_div v mag)"

definition pol2cart :: "real \<Rightarrow> real \<Rightarrow> real \<times> real" where
  "pol2cart theta rad = (rad * cos theta, rad * sin theta)"

definition deg2rad :: "real \<Rightarrow> real" where
  "deg2rad a = a * pi / 180"

subsection \<open>Parameters, state and system\<close>

text \<open>
  The field \<open>length\<close> of the source is \<open>length_web\<close> here. \<open>System(params, init=init,
  C_d=C_d)\<close> copies the fields of \<open>params\<close> and adds two, so \<open>System\<close> extends \<open>Params\<close>.
  \<open>set\<close> returns a copy with the named fields replaced, which is a record update.
  Unpacking a state (\<open>x, y, vx, vy = state\<close>) binds its four fields in order.
\<close>

record State =
  x :: real
  y :: real
  vx :: real
  vy :: real

record Params =
  height :: real
  g :: real
  mass :: real
  area :: real
  rho :: real
  v_term :: real
  length_web :: real
  angle :: real
  k :: real
  t_0 :: real
  t_end :: real

record System = Params +
  init :: State
  C_d :: real

definition params :: Params where
  "params =
     \<lparr>height = 381, g = 98/10, mass = 75, area = 1, rho = 12/10, v_term = 60,
      length_web = 100, angle = 270 - 45, k = 40, t_0 = 0, t_end = 30\<rparr>"

definition initial_condition :: "Params \<Rightarrow> State" where
  "initial_condition p =
     (let H = Vector 0 (height p);
          theta = deg2rad (angle p);
          (x, y) = pol2cart theta (length_web p);
          L = Vector x y;
          P = vector_add H L
      in \<lparr>x = fst P, y = snd P, vx = 0, vy = 0\<rparr>)"

text \<open>
  The division that computes \<open>C_d\<close> is a division of Python numbers and raises
  \<open>ZeroDivisionError\<close> when \<open>rho * area * v_term**2\<close> is zero.
\<close>

definition make_system :: "Params \<Rightarrow> error + System" where
  "make_system p =
     (let init = initial_condition p;
          (mass, g) = (Params.mass p, Params.g p);
          (rho, area, v_term) = (Params.rho p, Params.area p, Params.v_term p)
      in if rho * area * v_term\<^sup>2 = 0 then Inl ZeroDivisionError
         else
           (let C_d = 2 * mass * g / (rho * area * v_term\<^sup>2)
            in Inr (Params.extend p (System.fields init C_d))))"

subsection \<open>Forces and the slope function\<close>

definition drag_force :: "Vector \<Rightarrow> System \<Rightarrow> Vector" where
  "drag_force V system =
     (let (rho, C_d, area) = (Params.rho system, System.C_d system, Params.area system);
          mag = rho * (vector_mag V)\<^sup>2 * C_d * area / 2;
          direction = vector_neg (vector_hat V);
          f_drag = vector_mul direction mag
      in f_drag)"

definition spring_force :: "Vector \<Rightarrow> System \<Rightarrow> Vector" where
  "spring_force L system =
     (let extension = vector_mag L - length_web system;
          mag = (if extension < 0 then 0 else k system * extension);
          direction = vector_neg (vector_hat L);
          f_spring = vector_mul direction mag
      in f_spring)"

definition slope_func :: "real \<Rightarrow> State \<Rightarrow> System \<Rightarrow> real \<times> real \<times> real \<times> real" where
  "slope_func t state system =
     (let (x, y, vx, vy) = (State.x state, State.y state, State.vx state, State.vy state);
          P = Vector x y;
          V = Vector vx vy;
          (g, mass) = (Params.g system, Params.mass system);
          H = Vector 0 (height system);
          L = vector_sub P H;
          a_grav = Vector 0 (- g);
          a_spring = vector_div (spring_force L system) mass;
          a_drag = vector_div (drag_force V system) mass;
          A = vector_add (vector_add a_grav a_drag) a_spring
      in (fst V, snd V, fst A, snd A))"

definition event_func :: "real \<Rightarrow> State \<Rightarrow> System \<Rightarrow> real" where
  "event_func t state system =
     (let (x, y, vx, vy) = (State.x state, State.y state, State.vx state, State.vy state)
      in y)"

subsection \<open>The two phases\<close>

text \<open>
  Modelled from the spec: \<open>run_solve_ivp\<close> of modsim.py is missing. The integrator is an
  external collaborator that takes a system, a derivative function and an optional
  event function and returns a trajectory with details; it is a parameter of
  \<open>run_two_phase\<close>. A trajectory is the list of its rows, each a time label with a state.
  \<open>results1.index[-1]\<close> and \<open>results1.iloc[-1]\<close> read the last row and raise \<open>IndexError\<close>
  when there is none; \<open>pd.concat\<close> appends the rows of the second frame to the first.
\<close>

type_synonym TimeFrame = "(real \<times> State) list"

type_synonym 'd integrator =
  "System \<Rightarrow> (real \<Rightarrow> State \<Rightarrow> System \<Rightarrow> real \<times> real \<times> real \<times> real) \<Rightarrow>
   (real \<Rightarrow> State \<Rightarrow> System \<Rightarrow> real) option \<Rightarrow> TimeFrame \<times> 'd"

definition run_two_phase :: "'d integrator \<Rightarrow> real \<Rightarrow> Params \<Rightarrow> error + TimeFrame" where
  "run_two_phase run_solve_ivp t_release p =
     (let params1 = p\<lparr>t_end := t_release\<rparr> in
      case make_system params1 of
        Inl e \<Rightarrow> Inl e
      | Inr system1 \<Rightarrow>
          (let (results1, details1) = run_solve_ivp system1 slope_func None in
           if results1 = [] then Inl IndexError
           else
             (let t_0 = fst (last results1);
                  t_end = t_0 + 10;
                  init = snd (last results1);
                  system2 = system1\<lparr>init := init, t_0 := t_0, t_end := t_end, k := 0\<rparr>;
                  (results2, details2) = run_solve_ivp system2 slope_func (Some event_func)
              in Inr (results1 @ results2))))"

text \<open>
  A sample integrator for evaluating the model: it returns the initial state at the
  start time and at the end time.
\<close>

definition sample_integrator :: "unit integrator" where
  "sample_integrator system slope events =
     ([(t_0 system, init system), (t_end system, init system)], ())"

section \<open>Properties of the Freshman Plague model\<close>

subsection \<open>Recording in first-occurrence order\<close>

lemma set_first_occurrences [simp]: "set (first_occurrences vs) = set vs"
  by (induction vs) auto

lemma distinct_first_occurrences [simp]: "distinct (first_occurrences vs)"
  by (induction vs) auto

lemma first_occurrences_distinct: "distinct vs \<Longrightarrow> first_occurrences vs = vs"
  by (induction vs) (auto simp: filter_id_conv)

lemma update_recorded:
  "AList.update v (f v) (map (\<lambda>w. (w, f w)) us) =
     (if v \<in> set us then map (\<lambda>w. (w, f w)) us else map (\<lambda>w. (w, f w)) (us @ [v]))"
  by (induction us) auto

lemma fold_update_recorded:
  "fold (\<lambda>v. AList.update v (f v)) vs (map (\<lambda>w. (w, f w)) us) =
     map (\<lambda>w. (w, f w)) (us @ filter (\<lambda>w. w \<notin> set us) (first_occurrences vs))"
proof (induction vs arbitrary: us)
  case Nil
  show ?case by simp
next
  case (Cons v vs)
  show ?case
  proof (cases "v \<in> set us")
    case True
    have "filter (\<lambda>w. w \<notin> set us) (filter (\<lambda>w. w \<noteq> v) (first_occurrences vs)) =
          filter (\<lambda>w. w \<notin> set us) (first_occurrences vs)"
      using True by (auto intro: filter_cong)
    with True Cons.IH [of us] show ?thesis
      by (simp add: update_recorded)
  next
    case False
    have "filter (\<lambda>w. w \<notin> set (us @ [v])) (first_occurrences vs) =
          filter (\<lambda>w. w \<notin> set us) (filter (\<lambda>w. w \<noteq> v) (first_occurrences vs))"
      by (auto intro: filter_cong)
    with False Cons.IH [of "us @ [v]"] show ?thesis
      by (simp add: update_recorded)
  qed
qed

lemma fold_update_empty:
  "fold (\<lambda>v. AList.update v (f v)) vs [] = map (\<lambda>w. (w, f w)) (first_occurrences vs)"
  using fold_update_recorded [of f vs "[]"] by simp

lemma compute_factor_value:
  "compute_factor spending = Inr ((1/5) / (1 + exp (- (1/100) * (spending - 500))))"
proof -
  have "0 \<le> 1 + exp (- (1/100) * (spending - 500))"
    by (rule add_nonneg_nonneg) simp_all
  then show ?thesis
    by (simp add: compute_factor_def logistic_def Let_def powr_one)
qed

lemma store_new_eqI:
  "cell h' = (cell h)(fresh h := obj) \<Longrightarrow> fresh h' = Suc (fresh h) \<Longrightarrow>
   heap.more h' = heap.more h \<Longrightarrow> h' = store_new obj h"
  by (rule heap.equality) (simp_all add: store_new_def)

lemma make_system_store_new:
  "chap11_make_system env b c h =
     (fresh h, store_new \<lparr>SIR_System.init = init_state env, t_end = end_time env, beta = b, gamma = c\<rparr> h)"
  by (simp add: chap11_make_system_def store_new_def)

lemma update_object_store_new:
  "update_object (fresh h) f (store_new obj h) = store_new (f obj) h"
  by (rule store_new_eqI) (simp_all add: update_object_def store_new_def)

lemma wash_store_new:
  "add_hand_washing (fresh h) spending
     (store_new \<lparr>SIR_System.init = init_state env, t_end = end_time env, beta = beta_rate, gamma = gamma_rate\<rparr> h) =
   Inr (store_new (washed env spending) h)"
  by (simp add: add_hand_washing_def compute_factor_value update_object_store_new washed_def)

lemma cell_store_new [simp]: "cell (store_new obj h) (fresh h) = obj"
  by (simp add: store_new_def)

lemma evaluate_spending_eq:
  "evaluate_spending env spending h =
     calc_total_infected (run_simulation env (washed env spending) (update_func env))
       (washed env spending)"
  by (simp add: evaluate_spending_def integrate_extract_def compose_spending_def
      make_system_store_new wash_store_new)

lemma sweep_hand_washing_loop_step:
  "sweep_hand_washing_loop env (v # vs) sw h =
     (case evaluate_spending env v h0 of
        Inl e \<Rightarrow> Inl e
      | Inr outcome \<Rightarrow> sweep_hand_washing_loop env vs (AList.update v outcome sw)
          (store_new (washed env v) h))"
  by (simp add: evaluate_spending_eq make_system_store_new wash_store_new)

lemma sweep_hand_washing_loop_ok:
  assumes "\<forall>v\<in>set vs. evaluate_spending env v h0 = Inr (f v)"
  shows "\<exists>h'. sweep_hand_washing_loop env vs sw h =
           Inr (fold (\<lambda>v. AList.update v (f v)) vs sw, h')"
  using assms
proof (induction vs arbitrary: sw h)
  case Nil
  show ?case by simp
next
  case (Cons v vs)
  from Cons.prems have v: "evaluate_spending env v h0 = Inr (f v)"
    and rest: "\<forall>w\<in>set vs. evaluate_spending env w h0 = Inr (f w)"
    by simp_all
  from Cons.IH [OF rest] obtain h' where
    "sweep_hand_washing_loop env vs (AList.update v (f v) sw) (store_new (washed env v) h) =
       Inr (fold (\<lambda>v. AList.update v (f v)) vs (AList.update v (f v) sw), h')"
    by blast
  then show ?case
    by (simp add: sweep_hand_washing_loop_step [of env v vs sw h h0] v
        del: sweep_hand_washing_loop.simps)
qed

lemma sweep_hand_washing_ok:
  assumes "\<forall>v\<in>set vs. evaluate_spending env v h0 = Inr (f v)"
  shows "\<exists>h'. sweep_hand_washing env vs h =
           Inr (map (\<lambda>v. (v, f v)) (first_occurrences vs), h')"
  using sweep_hand_washing_loop_ok [OF assms, of "[]" h]
  by (simp add: sweep_hand_washing_def fold_update_empty)

lemma sweep_hand_washing_loop_frame:
  "sweep_hand_washing_loop env vs sw h = Inr (sw', h') \<Longrightarrow>
     fresh h' = fresh h + length vs \<and> (\<forall>a<fresh h. cell h' a = cell h a)"
proof (induction vs arbitrary: sw h)
  case Nil
  then show ?case by simp
next
  case (Cons v vs)
  from Cons.prems obtain outcome where
    "sweep_hand_washing_loop env vs (AList.update v outcome sw) (store_new (washed env v) h) =
       Inr (sw', h')"
    by (auto simp: sweep_hand_washing_loop_step [of env v vs sw h h]
        simp del: sweep_hand_washing_loop.simps split: sum.splits)
  from Cons.IH [OF this] show ?case
    by (auto simp: store_new_def)
qed

lemma immunize_store_new:
  "add_immunization (fresh h) fraction (store_new obj h) =
     store_new (obj\<lparr>SIR_System.init := (SIR_System.init obj)\<lparr>s := s (SIR_System.init obj) - fraction,
                                         r := r (SIR_System.init obj) + fraction\<rparr>\<rparr>) h"
  by (simp add: add_immunization_def update_object_store_new)

lemma compose_levers_eq:
  "compose_levers env fraction spending h =
     Inr (fresh h, store_new (dosed env fraction spending) h)"
  by (simp add: compose_levers_def make_system_store_new immunize_store_new
      add_hand_washing_def compute_factor_value update_object_store_new dosed_def)

lemma compose_spending_eq:
  "compose_spending env spending h = Inr (fresh h, store_new (washed env spending) h)"
  by (simp add: compose_spending_def make_system_store_new wash_store_new)

lemma evaluate_levers_eq:
  "evaluate_levers env fraction spending h =
     calc_total_infected (run_simulation env (dosed env fraction spending) (update_func env))
       (dosed env fraction spending)"
  by (simp add: evaluate_levers_def integrate_extract_def compose_levers_eq)

lemma sweep_doses_loop_compose:
  "sweep_doses_loop env (d # ds) sw h =
     (case compose_levers env (d / num_students) (budget - d * price_per_dose) h of
        Inl e \<Rightarrow> Inl e
      | Inr (system, h3) \<Rightarrow>
          (case calc_total_infected (run_simulation env (cell h3 system) (update_func env))
                  (cell h3 system) of
             Inl e \<Rightarrow> Inl e
           | Inr outcome \<Rightarrow> sweep_doses_loop env ds (AList.update d outcome sw) h3))"
  by (simp add: compose_levers_def Let_def split: prod.splits sum.splits)

lemma sweep_doses_loop_step:
  "sweep_doses_loop env (d # ds) sw h =
     (case evaluate_levers env (d / num_students) (budget - d * price_per_dose) h0 of
        Inl e \<Rightarrow> Inl e
      | Inr outcome \<Rightarrow> sweep_doses_loop env ds (AList.update d outcome sw)
          (store_new (dosed env (d / num_students) (budget - d * price_per_dose)) h))"
  unfolding sweep_doses_loop_compose evaluate_levers_eq compose_levers_eq
  by simp

lemma sweep_doses_loop_ok:
  assumes "\<forall>d\<in>set ds.
     evaluate_levers env (d / num_students) (budget - d * price_per_dose) h0 = Inr (f d)"
  shows "\<exists>h'. sweep_doses_loop env ds sw h =
           Inr (fold (\<lambda>d. AList.update d (f d)) ds sw, h')"
  using assms
proof (induction ds arbitrary: sw h)
  case Nil
  show ?case by simp
next
  case (Cons d ds)
  from Cons.prems
  have d: "evaluate_levers env (d / num_students) (budget - d * price_per_dose) h0 = Inr (f d)"
    and rest: "\<forall>w\<in>set ds.
      evaluate_levers env (w / num_students) (budget - w * price_per_dose) h0 = Inr (f w)"
    by simp_all
  from Cons.IH [OF rest] obtain h' where
    "sweep_doses_loop env ds (AList.update d (f d) sw)
       (store_new (dosed env (d / num_students) (budget - d * price_per_dose)) h) =
       Inr (fold (\<lambda>d. AList.update d (f d)) ds (AList.update d (f d) sw), h')"
    by blast
  then show ?case
    by (simp add: sweep_doses_loop_step [of env d ds sw h h0] d del: sweep_doses_loop.simps)
qed

lemma sweep_doses_ok:
  assumes "\<forall>d\<in>set ds.
     evaluate_levers env (d / num_students) (budget - d * price_per_dose) h0 = Inr (f d)"
  shows "\<exists>h'. sweep_doses env ds h = Inr (map (\<lambda>d. (d, f d)) (first_occurrences ds), h')"
  using sweep_doses_loop_ok [OF assms, of "[]" h]
  by (simp add: sweep_doses_def fold_update_empty)

lemma sweep_doses_loop_frame:
  "sweep_doses_loop env ds sw h = Inr (sw', h') \<Longrightarrow>
     fresh h' = fresh h + length ds \<and> (\<forall>a<fresh h. cell h' a = cell h a)"
proof (induction ds arbitrary: sw h)
  case Nil
  then show ?case by simp
next
  case (Cons d ds)
  from Cons.prems obtain outcome where
    "sweep_doses_loop env ds (AList.update d outcome sw)
       (store_new (dosed env (d / num_students) (budget - d * price_per_dose)) h) =
       Inr (sw', h')"
    by (auto simp: sweep_doses_loop_step [of env d ds sw h h]
        simp del: sweep_doses_loop.simps split: sum.splits)
  from Cons.IH [OF this] show ?case
    by (auto simp: store_new_def)
qed

subsection \<open>The grid sweep\<close>

lemma sample_washed_outcome:
  "evaluate_spending sample_chap11 v h = Inr (89/90)"
  by (simp add: evaluate_spending_eq calc_total_infected_def sample_chap11_def washed_def)

lemma sample_dosed_outcome:
  "evaluate_levers sample_chap11 fraction spending h = Inr (89/90 - fraction)"
  by (simp add: evaluate_levers_eq calc_total_infected_def sample_chap11_def dosed_def)

text \<open>
  Claim C1. For every sequence \<open>vs\<close> of candidate lever values whose single evaluations
  succeed, both grid sweeps (\<open>sweep_hand_washing\<close> and \<open>sweep_doses\<close>), started on any
  store, return one entry per candidate value, keyed by that value, in the order in which
  the values first occur in \<open>vs\<close> (which is \<open>vs\<close> itself when no value is repeated). The
  outcome recorded for a value is the result of composing, integrating and extracting for
  that value alone on any other store \<open>h0\<close>. The sweep of the empty sequence is the empty
  result, the sweep of a one-element sequence is the one entry of the direct evaluation,
  and every reordering of \<open>vs\<close> records the same set of entries.
\<close>

theorem grid_sweep_records_candidates:
  fixes env :: "'u chap11"
  assumes hw: "\<forall>v\<in>set vs. evaluate_spending env v h0 = Inr (f_hw v)"
      and ds: "\<forall>v\<in>set vs.
                 evaluate_levers env (v / num_students) (budget - v * price_per_dose) h0 =
                   Inr (f_doses v)"
  shows "(\<exists>h'. sweep_hand_washing env vs h =
                  Inr (map (\<lambda>v. (v, f_hw v)) (first_occurrences vs), h')) \<and>
         (\<exists>h'. sweep_doses env vs h =
                  Inr (map (\<lambda>v. (v, f_doses v)) (first_occurrences vs), h')) \<and>
         distinct (first_occurrences vs) \<and>
         set (first_occurrences vs) = set vs \<and>
         (distinct vs \<longrightarrow> first_occurrences vs = vs) \<and>
         sweep_hand_washing env [] h = Inr ([], h) \<and>
         sweep_doses env [] h = Inr ([], h) \<and>
         (\<forall>v\<in>set vs. \<exists>h'. sweep_hand_washing env [v] h = Inr ([(v, f_hw v)], h')) \<and>
         (\<forall>v\<in>set vs. \<exists>h'. sweep_doses env [v] h = Inr ([(v, f_doses v)], h')) \<and>
         (\<forall>ws. mset ws = mset vs \<longrightarrow>
            (\<exists>sw h'. sweep_hand_washing env ws h = Inr (sw, h') \<and>
                      set sw = (\<lambda>v. (v, f_hw v)) ` set vs) \<and>
            (\<exists>sw h'. sweep_doses env ws h = Inr (sw, h') \<and>
                      set sw = (\<lambda>v. (v, f_doses v)) ` set vs))"
proof -
  have one_hw: "\<exists>h'. sweep_hand_washing env [v] h = Inr ([(v, f_hw v)], h')"
    if "v \<in> set vs" for v
  proof -
    from hw that have "\<forall>w\<in>set [v]. evaluate_spending env w h0 = Inr (f_hw w)"
      by simp
    from sweep_hand_washing_ok [OF this, of h] show ?thesis
      by simp
  qed
  have one_doses: "\<exists>h'. sweep_doses env [v] h = Inr ([(v, f_doses v)], h')"
    if "v \<in> set vs" for v
  proof -
    from ds that have "\<forall>w\<in>set [v].
        evaluate_levers env (w / num_students) (budget - w * price_per_dose) h0 =
          Inr (f_doses w)"
      by simp
    from sweep_doses_ok [OF this, of h] show ?thesis
      by simp
  qed
  have perm_hw: "\<exists>sw h'. sweep_hand_washing env ws h = Inr (sw, h') \<and>
      set sw = (\<lambda>v. (v, f_hw v)) ` set vs"
    if "mset ws = mset vs" for ws
  proof -
    from that have eq: "set ws = set vs"
      by (rule mset_eq_setD)
    with hw have "\<forall>v\<in>set ws. evaluate_spending env v h0 = Inr (f_hw v)"
      by simp
    from sweep_hand_washing_ok [OF this, of h] obtain h' where
      "sweep_hand_washing env ws h = Inr (map (\<lambda>v. (v, f_hw v)) (first_occurrences ws), h')"
      by blast
    moreover have "set (map (\<lambda>v. (v, f_hw v)) (first_occurrences ws)) =
        (\<lambda>v. (v, f_hw v)) ` set vs"
      using eq by simp
    ultimately show ?thesis
      by blast
  qed
  have perm_doses: "\<exists>sw h'. sweep_doses env ws h = Inr (sw, h') \<and>
      set sw = (\<lambda>v. (v, f_doses v)) ` set vs"
    if "mset ws = mset vs" for ws
  proof -
    from that have eq: "set ws = set vs"
      by (rule mset_eq_setD)
    with ds have "\<forall>v\<in>set ws.
        evaluate_levers env (v / num_students) (budget - v * price_per_dose) h0 =
          Inr (f_doses v)"
      by simp
    from sweep_doses_ok [OF this, of h] obtain h' where
      "sweep_doses env ws h = Inr (map (\<lambda>v. (v, f_doses v)) (first_occurrences ws), h')"
      by blast
    moreover have "set (map (\<lambda>v. (v, f_doses v)) (first_occurrences ws)) =
        (\<lambda>v. (v, f_doses v)) ` set vs"
      using eq by simp
    ultimately show ?thesis
      by blast
  qed
  have empty: "sweep_hand_washing env [] h = Inr ([], h)" "sweep_doses env [] h = Inr ([], h)"
    by (simp_all add: sweep_hand_washing_def sweep_doses_def)
  from sweep_hand_washing_ok [OF hw, of h] sweep_doses_ok [OF ds, of h]
    one_hw one_doses perm_hw perm_doses empty
  show ?thesis
    by (simp add: first_occurrences_distinct)
qed

theorem grid_sweep_records_candidates_witness:
  "evaluate_spending sample_chap11 0 sample_heap = Inr (89/90) \<and>
   evaluate_spending sample_chap11 500 sample_heap = Inr (89/90) \<and>
   evaluate_levers sample_chap11 (0 / num_students) (budget - 0 * price_per_dose)
     sample_heap = Inr (89/90 - 0/90) \<and>
   evaluate_levers sample_chap11 (500 / num_students) (budget - 500 * price_per_dose)
     sample_heap = Inr (89/90 - 500/90) \<and>
   distinct [0, 500 :: real] \<and> mset [500, 0 :: real] = mset [0, 500] \<and>
   (\<exists>h'. sweep_hand_washing sample_chap11 [0, 500] empty_heap =
            Inr ([(0, 89/90), (500, 89/90)], h')) \<and>
   (\<exists>h'. sweep_doses sample_chap11 [0, 500] empty_heap =
            Inr ([(0, 89/90), (500, 89/90 - 500/90)], h')) \<and>
   (\<exists>sw h'. sweep_doses sample_chap11 [500, 0] empty_heap = Inr (sw, h') \<and>
             set sw = {(0, 89/90), (500, 89/90 - 500/90)})"
proof -
  have hw: "\<forall>v\<in>set [0, 500]. evaluate_spending sample_chap11 v sample_heap =
      Inr ((\<lambda>v. 89/90) v)"
    by (simp add: sample_washed_outcome)
  have ds: "\<forall>v\<in>set [0, 500].
      evaluate_levers sample_chap11 (v / num_students) (budget - v * price_per_dose)
        sample_heap = Inr ((\<lambda>v. 89/90 - v/90) v)"
    by (simp add: sample_dosed_outcome num_students_def)
  have reordered: "mset [500, 0 :: real] = mset [0, 500]"
    by simp
  note sweep = grid_sweep_records_candidates [OF hw ds, of empty_heap]
  from sweep have "\<exists>sw h'. sweep_doses sample_chap11 [500, 0] empty_heap = Inr (sw, h') \<and>
      set sw = (\<lambda>v. (v, 89/90 - v/90)) ` set [0, 500]"
    using reordered by blast
  then have "\<exists>sw h'. sweep_doses sample_chap11 [500, 0] empty_heap = Inr (sw, h') \<and>
      set sw = {(0, 89/90), (500, 89/90 - 500/90)}"
    by simp
  moreover from sweep have
    "\<exists>h'. sweep_hand_washing sample_chap11 [0, 500] empty_heap =
            Inr ([(0, 89/90), (500, 89/90)], h')"
    "\<exists>h'. sweep_doses sample_chap11 [0, 500] empty_heap =
            Inr ([(0, 89/90), (500, 89/90 - 500/90)], h')"
    by simp_all
  ultimately show ?thesis
    using hw ds by simp
qed

lemma max_doses_value: "max_doses = 12"
  by (simp add: max_doses_def py_int_def budget_def price_per_dose_def)

lemma dose_array_value: "dose_array = [0, 1, 2, 3, 4, 5, 6, 7, 8, 9, 10, 11, 12]"
  by (simp add: dose_array_def linrange_def max_doses_value upto.simps)

lemma dose_array_distinct: "distinct dose_array"
  by (simp add: dose_array_value)

text \<open>
  Claim C2. With budget 1200 and price 100 per dose, \<open>max_doses\<close> is 12 and the dose array
  holds the integers 0 to 12. When the single evaluations succeed, the sweep over doses
  returns exactly 13 entries, one for each dose count in that order; the entry for
  \<open>doses\<close> is the outcome of the evaluation with immunized fraction \<open>doses / num_students\<close>
  and hand-washing spending \<open>budget - doses * price_per_dose\<close>, which equals
  \<open>1200 - doses * 100\<close> and is at least 0 for every entry.
\<close>

theorem budget_sweep_doses:
  fixes env :: "'u chap11"
  assumes "\<forall>doses\<in>set dose_array.
     evaluate_levers env (doses / num_students) (budget - doses * price_per_dose) h0 =
       Inr (f_doses doses)"
  shows "budget = 1200 \<and> price_per_dose = 100 \<and> max_doses = 12 \<and>
         dose_array = map real_of_int [0..12] \<and>
         (\<exists>h'. sweep_doses env dose_array h =
                  Inr (map (\<lambda>doses. (doses, f_doses doses)) dose_array, h')) \<and>
         length (map (\<lambda>doses. (doses, f_doses doses)) dose_array) = 13 \<and>
         (\<forall>doses\<in>set dose_array.
            budget - doses * price_per_dose = 1200 - doses * 100 \<and>
            0 \<le> budget - doses * price_per_dose)"
proof -
  have "\<exists>h'. sweep_doses env dose_array h =
      Inr (map (\<lambda>doses. (doses, f_doses doses)) dose_array, h')"
    using sweep_doses_ok [OF assms, of h]
    by (simp add: first_occurrences_distinct [OF dose_array_distinct])
  moreover have "dose_array = map real_of_int [0..12]"
    by (simp add: dose_array_def linrange_def max_doses_value)
  moreover have "length dose_array = 13"
    by (simp add: dose_array_value)
  moreover have "\<forall>doses\<in>set dose_array.
      budget - doses * price_per_dose = 1200 - doses * 100 \<and>
      0 \<le> budget - doses * price_per_dose"
    by (simp add: dose_array_value budget_def price_per_dose_def)
  ultimately show ?thesis
    by (simp add: max_doses_value budget_def price_per_dose_def)
qed

theorem budget_sweep_doses_witness:
  "list_all
     (\<lambda>doses. evaluate_levers sample_chap11 (doses / num_students)
        (budget - doses * price_per_dose) sample_heap = Inr (89/90 - doses/90))
     dose_array \<and>
   (\<exists>h'. sweep_doses sample_chap11 dose_array empty_heap =
            Inr (map (\<lambda>doses. (doses, 89/90 - doses/90)) dose_array, h')) \<and>
   12 \<in> set dose_array \<and> budget - 12 * price_per_dose = 0"
proof -
  have ds: "\<forall>doses\<in>set dose_array.
      evaluate_levers sample_chap11 (doses / num_students) (budget - doses * price_per_dose)
        sample_heap = Inr ((\<lambda>doses. 89/90 - doses/90) doses)"
    by (simp add: sample_dosed_outcome num_students_def)
  note sweep = budget_sweep_doses [OF ds, of empty_heap]
  from sweep
  have "\<exists>h'. sweep_doses sample_chap11 dose_array empty_heap =
      Inr (map (\<lambda>doses. (doses, 89/90 - doses/90)) dose_array, h')"
    by (elim conjE)
  moreover have last_dose: "12 \<in> set dose_array"
    by (simp add: dose_array_value)
  moreover from sweep last_dose have "budget - 12 * price_per_dose = 1200 - 12 * 100"
    by blast
  ultimately show ?thesis
    using ds by (simp add: list_all_iff)
qed

text \<open>
  Claim C3. For a trajectory that has a row at time 0 and a row at the end time that the
  system declares, \<open>calc_total_infected\<close> returns the susceptible fraction at time 0
  minus the susceptible fraction at the end time.
\<close>

theorem calc_total_infected_difference:
  assumes "results 0 = Some row_0"
      and "results (SIR_System.t_end system) = Some row_end"
  shows "calc_total_infected results system = Inr (s row_0 - s row_end)"
  using assms by (simp add: calc_total_infected_def)

theorem calc_total_infected_difference_witness:
  "calc_total_infected
     [0 \<mapsto> \<lparr>s = 89/90, i = 1/90, r = 0\<rparr>, 98 \<mapsto> \<lparr>s = 1/2, i = 1/10, r = 2/5\<rparr>]
     \<lparr>SIR_System.init = \<lparr>s = 89/90, i = 1/90, r = 0\<rparr>, t_end = 98, beta = 1/3, gamma = 1/4\<rparr> =
   Inr (89/90 - 1/2)"
  using calc_total_infected_difference
    [of "[0 \<mapsto> \<lparr>s = 89/90, i = 1/90, r = 0\<rparr>, 98 \<mapsto> \<lparr>s = 1/2, i = 1/10, r = 2/5\<rparr>]"
        "\<lparr>s = 89/90, i = 1/90, r = 0\<rparr>"
        "\<lparr>SIR_System.init = \<lparr>s = 89/90, i = 1/90, r = 0\<rparr>, t_end = 98, beta = 1/3, gamma = 1/4\<rparr>"
        "\<lparr>s = 1/2, i = 1/10, r = 2/5\<rparr>"]
  by simp

text \<open>
  Claim C4. For every immunization fraction between 0 and 1, \<open>add_immunization\<close> applied
  to a freshly made system leaves an initial susceptible fraction equal to the
  unimmunized initial susceptible fraction minus the fraction.
\<close>

theorem add_immunization_initial_susceptible:
  fixes env :: "'u chap11"
  assumes "0 \<le> fraction" and "fraction \<le> 1"
      and "chap11_make_system env b c h = (system, h1)"
  shows "s (SIR_System.init (cell (add_immunization system fraction h1) system)) =
           s (SIR_System.init (cell (add_immunization system 0 h1) system)) - fraction \<and>
         s (SIR_System.init (cell (add_immunization system 0 h1) system)) =
           s (SIR_System.init (cell h1 system)) \<and>
         s (SIR_System.init (cell h1 system)) = s (init_state env)"
  using assms(3)
  by (auto simp: chap11_make_system_def add_immunization_def update_object_def)

theorem add_immunization_initial_susceptible_witness:
  "s (SIR_System.init (cell (add_immunization 0 (1/2) sample_heap) 0)) = 89/90 - 1/2"
proof -
  have "chap11_make_system sample_chap11 beta_rate gamma_rate empty_heap = (0, sample_heap)"
    by (simp add: sample_heap_def chap11_make_system_def empty_heap_def)
  from add_immunization_initial_susceptible [OF _ _ this, of "1/2"]
  show ?thesis
    by (simp add: sample_chap11_def)
qed

subsection \<open>In-place updates and lever domains\<close>

lemma sample_heap_cell:
  "cell sample_heap 0 =
     \<lparr>SIR_System.init = \<lparr>s = 89/90, i = 1/90, r = 0\<rparr>, t_end = 98, beta = 1/3, gamma = 1/4\<rparr>"
  by (simp add: sample_heap_def chap11_make_system_def empty_heap_def sample_chap11_def
      beta_rate_def gamma_rate_def tc_def tr_def)

lemma compute_factor_500: "compute_factor 500 = Inr (1/10)"
  by (simp add: compute_factor_value)

text \<open>
  Claim C8, as stated, fails: the \<open>System\<close> at address 0 of the sample store has
  \<open>beta = 1/3\<close> before \<open>add_hand_washing\<close> with spending 500 and \<open>beta = 3/10\<close> after it,
  and its initial susceptible fraction drops from \<open>89/90\<close> by \<open>1/2\<close> under
  \<open>add_immunization\<close>; both operations change the object they are given in place.
\<close>

theorem system_mutated_in_place_counterexample:
  "beta (cell sample_heap 0) = 1/3 \<and>
   \<not> isl (add_hand_washing 0 500 sample_heap) \<and>
   beta (cell (projr (add_hand_washing 0 500 sample_heap)) 0) = 3/10 \<and>
   s (SIR_System.init (cell sample_heap 0)) = 89/90 \<and>
   s (SIR_System.init (cell (add_immunization 0 (1/2) sample_heap) 0)) = 89/90 - 1/2"
  by (simp add: add_hand_washing_def compute_factor_500 add_immunization_def
      update_object_def sample_heap_cell)

text \<open>
  Claim C8, amended. \<open>add_immunization\<close> and \<open>add_hand_washing\<close> update the \<open>System\<close>
  object they are given in place (its \<open>init.s\<close> and \<open>init.r\<close>, and its \<open>beta\<close>) and leave
  every other object of the store unchanged. A sweep mutates only the \<open>System\<close> objects
  that it creates itself, one per iteration: every object that existed before the
  sweep is unchanged after it.
\<close>

theorem in_place_updates_stay_local:
  fixes env :: "'u chap11"
  shows "cell (add_immunization system fraction h) system =
           (cell h system)\<lparr>SIR_System.init :=
              (SIR_System.init (cell h system))
                \<lparr>s := s (SIR_System.init (cell h system)) - fraction,
                 r := r (SIR_System.init (cell h system)) + fraction\<rparr>\<rparr> \<and>
         (\<forall>a. a \<noteq> system \<longrightarrow> cell (add_immunization system fraction h) a = cell h a) \<and>
         (\<exists>factor h'. compute_factor spending = Inr factor \<and>
            add_hand_washing system spending h = Inr h' \<and>
            cell h' system = (cell h system)\<lparr>beta := beta (cell h system) * (1 - factor)\<rparr> \<and>
            (\<forall>a. a \<noteq> system \<longrightarrow> cell h' a = cell h a)) \<and>
         (\<forall>sw h'. sweep_hand_washing env vs h = Inr (sw, h') \<longrightarrow>
            (\<forall>a<fresh h. cell h' a = cell h a)) \<and>
         (\<forall>sw h'. sweep_doses env vs h = Inr (sw, h') \<longrightarrow>
            (\<forall>a<fresh h. cell h' a = cell h a))"
proof -
  have "cell (add_immunization system fraction h) system =
           (cell h system)\<lparr>SIR_System.init :=
              (SIR_System.init (cell h system))
                \<lparr>s := s (SIR_System.init (cell h system)) - fraction,
                 r := r (SIR_System.init (cell h system)) + fraction\<rparr>\<rparr>"
    by (simp add: add_immunization_def update_object_def)
  moreover have "\<forall>a. a \<noteq> system \<longrightarrow> cell (add_immunization system fraction h) a = cell h a"
    by (simp add: add_immunization_def update_object_def)
  moreover have "\<exists>factor h'. compute_factor spending = Inr factor \<and>
            add_hand_washing system spending h = Inr h' \<and>
            cell h' system = (cell h system)\<lparr>beta := beta (cell h system) * (1 - factor)\<rparr> \<and>
            (\<forall>a. a \<noteq> system \<longrightarrow> cell h' a = cell h a)"
    by (simp add: add_hand_washing_def compute_factor_value update_object_def)
  moreover have "\<forall>sw h'. sweep_hand_washing env vs h = Inr (sw, h') \<longrightarrow>
            (\<forall>a<fresh h. cell h' a = cell h a)"
    using sweep_hand_washing_loop_frame [of env vs "[]" h]
    by (simp add: sweep_hand_washing_def)
  moreover have "\<forall>sw h'. sweep_doses env vs h = Inr (sw, h') \<longrightarrow>
            (\<forall>a<fresh h. cell h' a = cell h a)"
    using sweep_doses_loop_frame [of env vs "[]" h]
    by (simp add: sweep_doses_def)
  ultimately show ?thesis
    by (intro conjI)
qed

theorem in_place_updates_stay_local_witness:
  "(1::nat) \<noteq> 0 \<and> 0 < fresh sample_heap \<and>
   cell (add_immunization 0 (1/2) sample_heap) 1 = cell sample_heap 1 \<and>
   (\<exists>h'. add_hand_washing 0 500 sample_heap = Inr h' \<and> cell h' 1 = cell sample_heap 1) \<and>
   (\<exists>sw h'. sweep_hand_washing sample_chap11 [0, 500] sample_heap = Inr (sw, h') \<and>
      cell h' 0 = cell sample_heap 0 \<and> beta (cell h' 0) = 1/3) \<and>
   (\<exists>sw h'. sweep_doses sample_chap11 [0, 500] sample_heap = Inr (sw, h') \<and>
      cell h' 0 = cell sample_heap 0 \<and> beta (cell h' 0) = 1/3)"
proof -
  note frame = in_place_updates_stay_local
    [of 0 "1/2" sample_heap 500 sample_chap11 "[0, 500]"]
  have alloc: "0 < fresh sample_heap"
    by (simp add: sample_heap_def chap11_make_system_def empty_heap_def)
  have "\<forall>v\<in>set [0, 500]. evaluate_spending sample_chap11 v sample_heap = Inr (89/90)"
    by (simp add: sample_washed_outcome)
  from sweep_hand_washing_ok [OF this, of sample_heap] obtain sw h' where
    "sweep_hand_washing sample_chap11 [0, 500] sample_heap = Inr (sw, h')"
    by blast
  with frame alloc have washing:
    "\<exists>sw h'. sweep_hand_washing sample_chap11 [0, 500] sample_heap = Inr (sw, h') \<and>
      cell h' 0 = cell sample_heap 0"
    by blast
  have "\<forall>v\<in>set [0, 500].
      evaluate_levers sample_chap11 (v / num_students) (budget - v * price_per_dose)
        sample_heap = Inr (89/90 - v / num_students)"
    by (simp add: sample_dosed_outcome)
  from sweep_doses_ok [OF this, of sample_heap] obtain sw h' where
    "sweep_doses sample_chap11 [0, 500] sample_heap = Inr (sw, h')"
    by blast
  with frame alloc have doses:
    "\<exists>sw h'. sweep_doses sample_chap11 [0, 500] sample_heap = Inr (sw, h') \<and>
      cell h' 0 = cell sample_heap 0"
    by blast
  from frame have immunized: "cell (add_immunization 0 (1/2) sample_heap) 1 = cell sample_heap 1"
    by simp
  from frame have washed_once:
    "\<exists>h'. add_hand_washing 0 500 sample_heap = Inr h' \<and> cell h' 1 = cell sample_heap 1"
    by auto
  have rate: "beta (cell sample_heap 0) = 1/3"
    by (simp add: sample_heap_cell)
  from washing rate have washing':
    "\<exists>sw h'. sweep_hand_washing sample_chap11 [0, 500] sample_heap = Inr (sw, h') \<and>
      cell h' 0 = cell sample_heap 0 \<and> beta (cell h' 0) = 1/3"
    by auto
  from doses rate have doses':
    "\<exists>sw h'. sweep_doses sample_chap11 [0, 500] sample_heap = Inr (sw, h') \<and>
      cell h' 0 = cell sample_heap 0 \<and> beta (cell h' 0) = 1/3"
    by auto
  from washing' doses' immunized washed_once alloc show ?thesis
    by (intro conjI) simp_all
qed

text \<open>
  Claim C9, as stated, fails: composing a scenario for 100 doses, which is more than the
  90 students and leaves a negative campaign spending, returns normally, and so does
  composing with spending \<open>-100\<close>; neither fails with \<open>InvalidLever\<close>.
\<close>

theorem invalid_lever_accepted_counterexample:
  "num_students < 100 \<and> budget - 100 * price_per_dose < 0 \<and>
   \<not> isl (compose_levers sample_chap11 (100 / num_students) (budget - 100 * price_per_dose)
            empty_heap) \<and>
   compose_levers sample_chap11 (100 / num_students) (budget - 100 * price_per_dose)
     empty_heap \<noteq> Inl InvalidLever \<and>
   \<not> isl (compose_spending sample_chap11 (- 100) empty_heap) \<and>
   compose_spending sample_chap11 (- 100) empty_heap \<noteq> Inl InvalidLever"
  by (simp add: compose_levers_eq compose_spending_eq num_students_def budget_def
      price_per_dose_def)

text \<open>
  Claim C9, amended. The scenario composer does no domain validation and never fails:
  for every spending and every immunized fraction, inside or outside the declared
  domain, composing returns the address of a new \<open>System\<close> to which the lever values
  have been applied as they are, and \<open>add_hand_washing\<close> returns the updated store.
\<close>

theorem composer_accepts_every_lever:
  fixes env :: "'u chap11"
  shows "(\<exists>h'. compose_spending env spending h = Inr (fresh h, h') \<and>
                cell h' (fresh h) = washed env spending) \<and>
         (\<exists>h'. compose_levers env fraction spending h = Inr (fresh h, h') \<and>
                cell h' (fresh h) = dosed env fraction spending) \<and>
         (\<exists>factor h'. compute_factor spending = Inr factor \<and>
                add_hand_washing system spending h = Inr h')"
proof (intro conjI)
  show "\<exists>h'. compose_spending env spending h = Inr (fresh h, h') \<and>
      cell h' (fresh h) = washed env spending"
    by (simp add: compose_spending_eq)
  show "\<exists>h'. compose_levers env fraction spending h = Inr (fresh h, h') \<and>
      cell h' (fresh h) = dosed env fraction spending"
    by (simp add: compose_levers_eq)
  show "\<exists>factor h'. compute_factor spending = Inr factor \<and>
      add_hand_washing system spending h = Inr h'"
    by (simp add: add_hand_washing_def compute_factor_value)
qed

subsection \<open>The campaign-response curve\<close>

lemma logistic_campaign:
  "logistic u 0 (1/100) 1 500 (1/5) 1 1 = Inr ((1/5) / (1 + exp (- (1/100) * (u - 500))))"
  using compute_factor_value [of u] by (simp add: compute_factor_def)

lemma exp_5_upper: "exp (5::real) < 199"
proof -
  have "exp (1/8 :: real) \<le> 1 + 1/8 + (1/8)\<^sup>2"
    by (rule exp_bound) simp_all
  then have "exp (1/8 :: real) \<le> 73/64"
    by (simp add: power2_eq_square)
  then have "exp (1/8 :: real) ^ 40 \<le> (73/64) ^ 40"
    by (intro power_mono) simp_all
  moreover have "exp (5::real) = exp (1/8) ^ 40"
    using exp_of_nat_mult [of 40 "1/8 :: real"] by simp
  moreover have "(73/64 :: real) ^ 40 < 199"
    by (simp add: power_divide)
  ultimately show ?thesis
    by linarith
qed

lemma exp_5_lower: "(142::real) < exp 5"
proof -
  have "1 + (1/8 :: real) + (1/8)\<^sup>2 / 2 \<le> exp (1/8)"
    by (rule exp_lower_Taylor_quadratic) simp
  then have "(145/128 :: real) \<le> exp (1/8)"
    by (simp add: power2_eq_square)
  then have "(145/128 :: real) ^ 40 \<le> exp (1/8) ^ 40"
    by (intro power_mono) simp_all
  moreover have "exp (5::real) = exp (1/8) ^ 40"
    using exp_of_nat_mult [of 40 "1/8 :: real"] by simp
  moreover have "142 < (145/128 :: real) ^ 40"
    by (simp add: power_divide)
  ultimately show ?thesis
    by linarith
qed

lemma campaign_limit:
  "((\<lambda>u. (1/5) / (1 + exp (- (1/100) * (u - 500)))) \<longlongrightarrow> (1/5 :: real)) at_top"
proof -
  have shifted: "filterlim (\<lambda>u::real. - 500 + u) at_top at_top"
    by (rule filterlim_tendsto_add_at_top [OF tendsto_const filterlim_ident])
  have "filterlim (\<lambda>u::real. - (1/100) * (- 500 + u)) at_bot at_top"
    by (rule filterlim_tendsto_neg_mult_at_bot [OF tendsto_const _ shifted]) simp
  then have "filterlim (\<lambda>u::real. - (1/100) * (u - 500)) at_bot at_top"
    by (simp add: algebra_simps)
  then have "((\<lambda>u::real. exp (- (1/100) * (u - 500))) \<longlongrightarrow> 0) at_top"
    by (rule filterlim_compose [OF exp_at_bot])
  then have "((\<lambda>u::real. (1/5) / (1 + exp (- (1/100) * (u - 500)))) \<longlongrightarrow> (1/5) / (1 + 0)) at_top"
    by (intro tendsto_intros) simp_all
  then show ?thesis
    by simp
qed

text \<open>
  Claim C5. For spending \<open>u\<close> in \<open>[0, \<infinity>)\<close> and \<open>u \<le> w\<close>, the campaign-response curve
  \<open>logistic(x, A=0, K=0.2, M=500, B=0.01)\<close>, which is \<open>compute_factor\<close>, returns a value at
  \<open>u\<close> that is at most its value at \<open>w\<close>.
\<close>

theorem logistic_campaign_monotone:
  assumes "0 \<le> u" and "u \<le> w"
  shows "\<exists>a b. logistic u 0 (1/100) 1 500 (1/5) 1 1 = Inr a \<and>
               logistic w 0 (1/100) 1 500 (1/5) 1 1 = Inr b \<and>
               compute_factor u = Inr a \<and> compute_factor w = Inr b \<and> a \<le> b"
proof -
  from assms have "exp (- (1/100) * (w - 500)) \<le> exp (- (1/100) * (u - 500))"
    by simp
  then have "(1/5) / (1 + exp (- (1/100) * (u - 500))) \<le>
             (1/5) / (1 + exp (- (1/100) * (w - 500)))"
    by (intro divide_left_mono) (simp_all add: add_pos_nonneg)
  then show ?thesis
    by (simp add: logistic_campaign compute_factor_def)
qed

theorem logistic_campaign_monotone_witness:
  "(0::real) \<le> 0 \<and> (0::real) \<le> 500 \<and>
   (\<exists>a b. logistic 0 0 (1/100) 1 500 (1/5) 1 1 = Inr a \<and>
          logistic 500 0 (1/100) 1 500 (1/5) 1 1 = Inr b \<and> a \<le> b)"
  using logistic_campaign_monotone [of 0 500] by auto

text \<open>
  Claim C6, as stated, fails at spending 0: the value of the campaign-response curve
  there is \<open>0.2 / (1 + e\<^sup>5)\<close>, which is greater than \<open>0.001\<close> and so not 0 within a
  floating-point tolerance.
\<close>

theorem logistic_campaign_at_zero_counterexample:
  "logistic 0 0 (1/100) 1 500 (1/5) 1 1 = Inr ((1/5) / (1 + exp 5)) \<and>
   (1/1000 :: real) < (1/5) / (1 + exp 5)"
proof -
  have "0 < 1 + exp (5::real)"
    by (simp add: add_pos_pos)
  with exp_5_upper have "(1/1000 :: real) < (1/5) / (1 + exp 5)"
    by (simp add: pos_less_divide_eq)
  then show ?thesis
    by (simp add: logistic_campaign)
qed

text \<open>
  Claim C6, amended. \<open>logistic(0, A=0, K=0.2, M=500, B=0.01)\<close> equals
  \<open>0.2 / (1 + e\<^sup>5)\<close>, a value between \<open>0.001\<close> and \<open>0.0014\<close>, and
  \<open>logistic(x, A=0, K=0.2, M=500, B=0.01)\<close> tends to \<open>0.2\<close> as \<open>x\<close> tends to infinity.
\<close>

theorem logistic_campaign_values:
  "\<exists>f. (\<forall>u. logistic u 0 (1/100) 1 500 (1/5) 1 1 = Inr (f u)) \<and>
        f 0 = (1/5) / (1 + exp 5) \<and> 1/1000 < f 0 \<and> f 0 < 14/10000 \<and>
        (f \<longlongrightarrow> 1/5) at_top"
proof (intro exI conjI allI)
  show "logistic u 0 (1/100) 1 500 (1/5) 1 1 = Inr ((1/5) / (1 + exp (- (1/100) * (u - 500))))"
    for u
    by (rule logistic_campaign)
  show "(1/5) / (1 + exp (- (1/100) * (0 - 500))) = (1/5) / (1 + exp (5::real))"
    by simp
  have pos: "0 < 1 + exp (5::real)"
    by (simp add: add_pos_pos)
  show "1/1000 < (1/5) / (1 + exp (- (1/100) * (0 - 500 :: real)))"
    using exp_5_upper pos by (simp add: pos_less_divide_eq)
  show "(1/5) / (1 + exp (- (1/100) * (0 - 500 :: real))) < 14/10000"
    using exp_5_lower pos by (simp add: pos_divide_less_eq)
  show "((\<lambda>u. (1/5) / (1 + exp (- (1/100) * (u - 500)))) \<longlongrightarrow> (1/5 :: real)) at_top"
    by (rule campaign_limit)
qed

section \<open>Properties of the Spider-Man model\<close>

lemma vector_mag_nonneg: "0 \<le> vector_mag v"
  by (simp add: vector_mag_def)

lemma vector_mag_zero_iff: "vector_mag v = 0 \<longleftrightarrow> v = (0, 0)"
proof -
  have "fst v * fst v + snd v * snd v = 0 \<longleftrightarrow> fst v = 0 \<and> snd v = 0"
    by simp
  then show ?thesis
    by (simp add: vector_mag_def prod_eq_iff)
qed

lemma vector_mag_mul: "vector_mag (vector_mul v c) = vector_mag v * \<bar>c\<bar>"
proof -
  have "fst v * c * (fst v * c) + snd v * c * (snd v * c) =
        (fst v * fst v + snd v * snd v) * (c * c)"
    by (simp add: algebra_simps)
  then show ?thesis
    by (simp add: vector_mag_def vector_mul_def real_sqrt_mult)
qed

lemma vector_mag_neg: "vector_mag (vector_neg v) = vector_mag v"
  by (simp add: vector_mag_def vector_neg_def)

lemma vector_mag_hat: "v \<noteq> (0, 0) \<Longrightarrow> vector_mag (vector_hat v) = 1"
proof -
  assume "v \<noteq> (0, 0)"
  then have nz: "vector_mag v \<noteq> 0"
    by (simp add: vector_mag_zero_iff)
  with vector_mag_nonneg [of v] have pos: "0 < vector_mag v"
    by simp
  have "vector_hat v = vector_mul v (1 / vector_mag v)"
    using nz by (simp add: vector_hat_def vector_div_def vector_mul_def Let_def)
  then have "vector_mag (vector_hat v) = vector_mag v * \<bar>1 / vector_mag v\<bar>"
    by (simp only: vector_mag_mul)
  with pos show ?thesis
    by simp
qed

text \<open>
  Claim C10. For a web vector \<open>L\<close> whose magnitude is at most the rest length,
  \<open>spring_force\<close> returns the zero vector. For a web vector whose magnitude exceeds the
  rest length it returns the vector opposite to the unit vector of \<open>L\<close>, scaled by the
  spring constant times the extension; for a non-negative rest length and spring
  constant the unit vector has magnitude 1 and the force has magnitude
  \<open>k * (|L| - length)\<close>.
\<close>

theorem spring_force_cases:
  "(vector_mag L \<le> length_web system \<longrightarrow> spring_force L system = (0, 0)) \<and>
   (length_web system < vector_mag L \<longrightarrow>
      spring_force L system =
        vector_mul (vector_neg (vector_hat L))
          (k system * (vector_mag L - length_web system))) \<and>
   (length_web system < vector_mag L \<longrightarrow> 0 \<le> length_web system \<longrightarrow> 0 \<le> k system \<longrightarrow>
      vector_mag (vector_hat L) = 1 \<and>
      vector_mag (spring_force L system) =
        k system * (vector_mag L - length_web system))"
proof (intro conjI impI)
  assume "vector_mag L \<le> length_web system"
  then show "spring_force L system = (0, 0)"
    by (auto simp: spring_force_def vector_mul_def Let_def)
next
  assume "length_web system < vector_mag L"
  then show "spring_force L system =
      vector_mul (vector_neg (vector_hat L)) (k system * (vector_mag L - length_web system))"
    by (simp add: spring_force_def Let_def)
next
  assume long: "length_web system < vector_mag L" and len: "0 \<le> length_web system"
    and stiff: "0 \<le> k system"
  from long len have "vector_mag L \<noteq> 0"
    by simp
  then have "L \<noteq> (0, 0)"
    by (simp add: vector_mag_zero_iff)
  then show "vector_mag (vector_hat L) = 1"
    by (rule vector_mag_hat)
next
  assume long: "length_web system < vector_mag L" and len: "0 \<le> length_web system"
    and stiff: "0 \<le> k system"
  from long len have "vector_mag L \<noteq> 0"
    by simp
  then have "L \<noteq> (0, 0)"
    by (simp add: vector_mag_zero_iff)
  then have unit: "vector_mag (vector_hat L) = 1"
    by (rule vector_mag_hat)
  from long stiff have "0 \<le> k system * (vector_mag L - length_web system)"
    by simp
  with long unit show "vector_mag (spring_force L system) =
      k system * (vector_mag L - length_web system)"
    by (simp add: spring_force_def Let_def vector_mag_mul vector_mag_neg)
qed

lemma make_system_params:
  "make_system (params\<lparr>t_end := t_release\<rparr>) =
     Inr (Params.extend (params\<lparr>t_end := t_release\<rparr>)
            (System.fields (initial_condition (params\<lparr>t_end := t_release\<rparr>)) (49/144)))"
  by (simp add: make_system_def params_def Let_def)

lemma sqrt_10201: "sqrt 10201 = 101"
  by (rule real_sqrt_unique) simp_all

theorem spring_force_cases_witness:
  "length_web (Params.extend params (System.fields (initial_condition params) (49/144)))
     < vector_mag (0, - 101) \<and>
   0 \<le> length_web (Params.extend params (System.fields (initial_condition params) (49/144))) \<and>
   0 \<le> k (Params.extend params (System.fields (initial_condition params) (49/144))) \<and>
   spring_force (0, - 101)
     (Params.extend params (System.fields (initial_condition params) (49/144))) = (0, 40) \<and>
   vector_mag (spring_force (0, - 101)
     (Params.extend params (System.fields (initial_condition params) (49/144)))) = 40 \<and>
   vector_mag (0, 100) \<le>
     length_web (Params.extend params (System.fields (initial_condition params) (49/144))) \<and>
   spring_force (0, 100)
     (Params.extend params (System.fields (initial_condition params) (49/144))) = (0, 0)"
proof -
  have "sqrt 1600 = 40"
    by (rule real_sqrt_unique) simp_all
  then have mag: "vector_mag (0, - 101) = 101" "vector_mag (0, 100) = 100"
    "vector_mag (0, 40) = 40"
    by (simp_all add: vector_mag_def sqrt_10201)
  have hat: "vector_hat (0, - 101) = (0, - 1)"
    by (simp add: vector_hat_def mag vector_div_def)
  have web: "length_web (Params.extend params (System.fields (initial_condition params) (49/144))) = 100"
    "k (Params.extend params (System.fields (initial_condition params) (49/144))) = 40"
    by (simp_all add: Params.defs System.defs params_def)
  from spring_force_cases [of "(0, - 101)"
      "Params.extend params (System.fields (initial_condition params) (49/144))"]
    spring_force_cases [of "(0, 100)"
      "Params.extend params (System.fields (initial_condition params) (49/144))"]
  show ?thesis
    by (simp add: mag hat web vector_mul_def vector_neg_def)
qed

text \<open>
  Claim C7. For every release time, when the first system can be made and the first
  run returns at least one row, \<open>run_two_phase\<close> runs the integrator twice: phase 1 on
  the system whose end time is the release time, with the spring constant of the
  parameters and no event function; phase 2 on a copy of that system whose initial
  state and start time are the state and time of the last row of phase 1, whose end
  time is 10 later, and whose spring constant is 0, with the ground-contact event
  function, which returns the height \<open>y\<close>. The result is the rows of phase 1 followed by
  the rows of phase 2.
\<close>

theorem run_two_phase_splices:
  fixes run_solve_ivp :: "'d integrator"
  assumes "make_system (p\<lparr>t_end := t_release\<rparr>) = Inr system1"
      and "run_solve_ivp system1 slope_func None = (results1, details1)"
      and "results1 \<noteq> []"
  shows "\<exists>system2 results2 details2.
           system2 = system1\<lparr>init := snd (last results1), t_0 := fst (last results1),
                              t_end := fst (last results1) + 10, k := 0\<rparr> \<and>
           run_solve_ivp system2 slope_func (Some event_func) = (results2, details2) \<and>
           run_two_phase run_solve_ivp t_release p = Inr (results1 @ results2) \<and>
           t_end system1 = t_release \<and> t_0 system1 = t_0 p \<and> k system1 = k p \<and>
           init system2 = snd (last results1) \<and> t_0 system2 = fst (last results1) \<and>
           k system2 = 0 \<and>
           (\<forall>t state system. event_func t state system = y state)"
proof -
  from assms(1) have fields: "t_end system1 = t_release" "t_0 system1 = t_0 p" "k system1 = k p"
    by (auto simp: make_system_def Let_def Params.defs System.defs split: if_splits)
  obtain results2 details2 where second:
    "run_solve_ivp (system1\<lparr>init := snd (last results1), t_0 := fst (last results1),
                              t_end := fst (last results1) + 10, k := 0\<rparr>)
       slope_func (Some event_func) = (results2, details2)"
    by (cases "run_solve_ivp (system1\<lparr>init := snd (last results1), t_0 := fst (last results1),
                              t_end := fst (last results1) + 10, k := 0\<rparr>)
       slope_func (Some event_func)") 
  with assms have "run_two_phase run_solve_ivp t_release p = Inr (results1 @ results2)"
    by (simp add: run_two_phase_def Let_def)
  with second fields show ?thesis
    by (simp add: event_func_def)
qed

theorem run_two_phase_splices_witness:
  "\<exists>system1 results1.
     make_system (params\<lparr>t_end := 9\<rparr>) = Inr system1 \<and>
     sample_integrator system1 slope_func None = (results1, ()) \<and>
     results1 \<noteq> [] \<and>
     (\<exists>results2. run_two_phase sample_integrator 9 params = Inr (results1 @ results2))"
proof -
  let ?system1 = "Params.extend (params\<lparr>t_end := 9\<rparr>)
            (System.fields (initial_condition (params\<lparr>t_end := 9\<rparr>)) (49/144))"
  let ?results1 = "[(t_0 ?system1, init ?system1), (t_end ?system1, init ?system1)]"
  have made: "make_system (params\<lparr>t_end := 9\<rparr>) = Inr ?system1"
    by (rule make_system_params)
  have first: "sample_integrator ?system1 slope_func None = (?results1, ())"
    by (simp add: sample_integrator_def)
  have rows: "?results1 \<noteq> []"
    by simp
  from run_two_phase_splices [where p = params and t_release = 9 and ?system1.0 = ?system1
      and run_solve_ivp = sample_integrator and ?results1.0 = ?results1 and ?details1.0 = "()",
      OF made first rows]
  have "\<exists>results2. run_two_phase sample_integrator 9 params = Inr (?results1 @ results2)"
    by blast
  with made first rows show ?thesis
    by blast
qed

end
